theory Spec2Isabelle
  imports Complex_Main "HOL-Library.AList" "HOL-Library.Multiset"
begin

section \<open>JavaScript values\<close>

text \<open>
  The components are TypeScript/React.  Strings are modelled as \<open>string\<close>, one \<open>char\<close>
  per UTF-16 code unit in the range 0..255 (the Latin-1 part of a JavaScript string).
  Numbers that the code stores, compares with \<open>||\<close> and copies (scores, form values) are
  \<open>int\<close>; no arithmetic is done on them.  A JavaScript object with dynamic properties
  (the \<open>Employee\<close> record, which the code extends through \<open>(employee as any)[name]\<close>)
  is a map from property names to values.
\<close>

datatype jsval = Undefined | Num int | Str string

fun truthy :: "jsval \<Rightarrow> bool" where
  "truthy Undefined = False"
| "truthy (Num n) = (n \<noteq> 0)"
| "truthy (Str s) = (s \<noteq> [])"

text \<open>\<open>a || b\<close>.\<close>

definition js_or :: "jsval \<Rightarrow> jsval \<Rightarrow> jsval" where
  "js_or a b = (if truthy a then a else b)"

type_synonym jsobj = "string \<rightharpoonup> jsval"

text \<open>\<open>obj[k]\<close>: \<open>undefined\<close> for a missing property.\<close>

definition get_prop :: "jsobj \<Rightarrow> string \<Rightarrow> jsval" where
  "get_prop obj k = (case obj k of None \<Rightarrow> Undefined | Some v \<Rightarrow> v)"

text \<open>\<open>formData[k]\<close> for \<open>formData: { [key: string]: number }\<close>.\<close>

definition getNum :: "(string \<rightharpoonup> int) \<Rightarrow> string \<Rightarrow> jsval" where
  "getNum m k = (case m k of None \<Rightarrow> Undefined | Some n \<Rightarrow> Num n)"

text \<open>\<open>formData[k] || d\<close> with a numeric fallback \<open>d\<close>: a missing entry and 0 are falsy.\<close>

definition num_or :: "int option \<Rightarrow> int \<Rightarrow> int" where
  "num_or v d = (case v of None \<Rightarrow> d | Some n \<Rightarrow> if n \<noteq> 0 then n else d)"

text \<open>\<open>Array.prototype.indexOf\<close>: first position of an exact match, \<open>-1\<close> when absent.\<close>

fun indexOf :: "string list \<Rightarrow> string \<Rightarrow> int" where
  "indexOf [] x = - 1"
| "indexOf (y # ys) x =
     (if y = x then 0 else (let i = indexOf ys x in if i = - 1 then - 1 else i + 1))"

definition digit_char :: "nat \<Rightarrow> char" where
  "digit_char d = char_of (48 + d)"

fun digits :: "nat \<Rightarrow> string" where
  "digits n = (if n < 10 then [digit_char n] else digits (n div 10) @ [digit_char (n mod 10)])"

declare digits.simps [simp del]

text \<open>The decimal text that a template literal produces for an integer.\<close>

definition toString :: "int \<Rightarrow> string" where
  "toString i = (if i < 0 then CHR ''-'' # digits (nat (- i)) else digits (nat i))"

text \<open>\<open>String.prototype.includes\<close>: \<open>sub\<close> occurs as a contiguous substring.\<close>

fun str_includes :: "string \<Rightarrow> string \<Rightarrow> bool" where
  "str_includes [] sub = (sub = [])"
| "str_includes (c # cs) sub = (take (length sub) (c # cs) = sub \<or> str_includes cs sub)"

section \<open>Canonical order and criteria codes\<close>

definition CANONICAL_CRITERIA_ORDER :: "string list" where
  "CANONICAL_CRITERIA_ORDER =
    [''Kualitas Kerja'', ''Tanggung Jawab'', ''Kuantitas Kerja'', ''Pemahaman Tugas'',
     ''Inisiatif'', ''Kerjasama'',
     ''Jumlah Hari Alpa'', ''Jumlah Keterlambatan'', ''Jumlah Hari Izin'',
     ''Jumlah Hari Sakit'', ''Pulang Cepat'',
     ''Prestasi'', ''Surat Peringatan'']"

definition getCriteriaCode :: "string \<Rightarrow> string" where
  "getCriteriaCode criteriaName =
     (let index = indexOf CANONICAL_CRITERIA_ORDER criteriaName
      in if index \<noteq> - 1 then ''C'' @ toString (index + 1) else ''C?'')"

section \<open>Field names\<close>

text \<open>
  Character classes of the regular expressions in \<open>createFieldName\<close>, on code units
  0..255: \<open>[a-z]\<close>, \<open>[0-9]\<close>, and \<open>\s\<close> (tab, line feed, vertical tab, form feed,
  carriage return, space, no-break space).
\<close>

definition code :: "char \<Rightarrow> nat" where
  "code c = of_char c"

definition is_az :: "char \<Rightarrow> bool" where
  "is_az c = (97 \<le> code c \<and> code c \<le> 122)"

definition is_09 :: "char \<Rightarrow> bool" where
  "is_09 c = (48 \<le> code c \<and> code c \<le> 57)"

definition is_space :: "char \<Rightarrow> bool" where
  "is_space c = (code c \<in> {9, 10, 11, 12, 13, 32, 160})"

definition is_underscore :: "char \<Rightarrow> bool" where
  "is_underscore c = (c = CHR ''_'')"

text \<open>
  \<open>String.prototype.toLowerCase\<close> on code units 0..255: the upper-case letters \<open>A-Z\<close>
  and the Latin-1 capitals U+00C0..U+00DE (without the multiplication sign U+00D7) move
  up by 32; every other code unit is unchanged.
\<close>

definition toLowerCase_char :: "char \<Rightarrow> char" where
  "toLowerCase_char c =
     (let n = code c
      in if (65 \<le> n \<and> n \<le> 90) \<or> (192 \<le> n \<and> n \<le> 222 \<and> n \<noteq> 215)
         then char_of (n + 32) else c)"

definition toLowerCase :: "string \<Rightarrow> string" where
  "toLowerCase s = map toLowerCase_char s"

text \<open>\<open>s.replace(/[^a-z0-9\s]/g, '')\<close>: every character outside the class is deleted.\<close>

definition strip_special :: "string \<Rightarrow> string" where
  "strip_special s = filter (\<lambda>c. is_az c \<or> is_09 c \<or> is_space c) s"

text \<open>
  \<open>s.replace(/P+/g, r)\<close> for a character class \<open>P\<close>: every maximal run of characters
  of the class is replaced by \<open>r\<close>.
\<close>

function replace_runs :: "(char \<Rightarrow> bool) \<Rightarrow> string \<Rightarrow> string \<Rightarrow> string" where
  "replace_runs P r [] = []"
| "replace_runs P r (c # cs) =
     (if P c then r @ replace_runs P r (dropWhile P cs) else c # replace_runs P r cs)"
  by pat_completeness auto
termination
  by (relation "measure (\<lambda>(P, r, s). length s)")
     (auto simp: le_imp_less_Suc length_dropWhile_le)

text \<open>
  \<open>s.replace(/^_+|_+$/g, '')\<close>: the run of underscores at the start and the run of
  underscores at the end are deleted.
\<close>

definition trim_underscores :: "string \<Rightarrow> string" where
  "trim_underscores s = rev (dropWhile is_underscore (rev (dropWhile is_underscore s)))"

definition createFieldName :: "string \<Rightarrow> string" where
  "createFieldName criteriaName =
     replace_runs is_underscore ''_''
       (trim_underscores
         (replace_runs is_space ''_''
           (strip_special (toLowerCase criteriaName))))"



text \<open>The characters a field name is made of: \<open>[a-z0-9_]\<close>.\<close>

definition token_char :: "char \<Rightarrow> bool" where
  "token_char c = (is_az c \<or> is_09 c \<or> is_underscore c)"

section \<open>Criteria and their order\<close>

datatype criteria_type = Benefit | Cost

record criterion =
  cid :: string
  name :: string
  category :: string
  ctype :: criteria_type
  weight :: real
  scale :: string

text \<open>
  The comparator that \<open>fetchCriteria\<close> passes to \<open>sort\<close>.  The name comparison
  \<open>a.name.localeCompare(b.name)\<close> is a library function of the platform and is a
  parameter \<open>lc\<close> here.
\<close>

definition compareCriteria :: "(string \<Rightarrow> string \<Rightarrow> int) \<Rightarrow> criterion \<Rightarrow> criterion \<Rightarrow> int" where
  "compareCriteria lc a b =
     (let indexA = indexOf CANONICAL_CRITERIA_ORDER (name a);
          indexB = indexOf CANONICAL_CRITERIA_ORDER (name b)
      in if indexA = - 1 \<and> indexB = - 1 then lc (name a) (name b)
         else if indexA = - 1 then 1
         else if indexB = - 1 then - 1
         else indexA - indexB)"

text \<open>
  \<open>Array.prototype.sort\<close> with a comparator is stable, and sorts when the comparator is
  consistent; it is modelled as the stable insertion sort: \<open>x\<close> goes before the first
  element \<open>y\<close> with \<open>cmp x y \<le> 0\<close>.
\<close>

fun insort_cmp :: "('a \<Rightarrow> 'a \<Rightarrow> int) \<Rightarrow> 'a \<Rightarrow> 'a list \<Rightarrow> 'a list" where
  "insort_cmp cmp x [] = [x]"
| "insort_cmp cmp x (y # ys) = (if cmp x y \<le> 0 then x # y # ys else y # insort_cmp cmp x ys)"

fun sort_cmp :: "('a \<Rightarrow> 'a \<Rightarrow> int) \<Rightarrow> 'a list \<Rightarrow> 'a list" where
  "sort_cmp cmp [] = []"
| "sort_cmp cmp (x # xs) = insort_cmp cmp x (sort_cmp cmp xs)"

definition sortedCriteria :: "(string \<Rightarrow> string \<Rightarrow> int) \<Rightarrow> criterion list \<Rightarrow> criterion list" where
  "sortedCriteria lc criteriaData = sort_cmp (compareCriteria lc) criteriaData"

text \<open>
  Modelled from the spec: the name comparison of the sorter ("fall back to lexicographic
  comparison by name"), as the lexicographic order on code units with results -1, 0, 1.
  The platform's \<open>localeCompare\<close> is not part of the repository.
\<close>

fun localeCompare :: "string \<Rightarrow> string \<Rightarrow> int" where
  "localeCompare [] [] = 0"
| "localeCompare [] (y # ys) = - 1"
| "localeCompare (x # xs) [] = 1"
| "localeCompare (x # xs) (y # ys) =
     (if code x < code y then - 1 else if code y < code x then 1 else localeCompare xs ys)"

text \<open>A criterion is known when its name is in the canonical list.\<close>

definition known :: "criterion \<Rightarrow> bool" where
  "known c = (indexOf CANONICAL_CRITERIA_ORDER (name c) \<noteq> - 1)"

definition position :: "criterion \<Rightarrow> int" where
  "position c = indexOf CANONICAL_CRITERIA_ORDER (name c)"

text \<open>A criterion record for worked examples.\<close>

definition demo_criterion :: "string \<Rightarrow> string \<Rightarrow> criteria_type \<Rightarrow> string \<Rightarrow> criterion" where
  "demo_criterion i n t s =
     \<lparr>cid = i, name = n, category = ''Kinerja'', ctype = t, weight = 10, scale = s\<rparr>"

section \<open>Default values\<close>

text \<open>
  The value that \<open>fetchCriteria\<close> of the evaluation form stores in
  \<open>newFormData[criterion.id]\<close>.
\<close>

definition formDefault :: "criterion \<Rightarrow> int" where
  "formDefault criterion =
     (if ctype criterion = Benefit then
        (if str_includes (scale criterion) ''1-5'' then 1
         else if str_includes (scale criterion) ''0-1'' \<or> str_includes (scale criterion) ''0/1''
         then 0
         else 1)
      else 0)"

definition newFormData :: "criterion list \<Rightarrow> (string \<rightharpoonup> int)" where
  "newFormData sortedCrit = fold (\<lambda>criterion m. m(cid criterion \<mapsto> formDefault criterion))
     sortedCrit Map.empty"

section \<open>Projection of the score rows to employee records\<close>

text \<open>
  A row of \<open>evaluationScores\<close>: a score row with the joined employee and criterion, of
  which the projection reads the names.  A missing join is \<open>None\<close>.
\<close>

record evaluation_score =
  es_id :: string
  es_employee_id :: string
  es_criteria_id :: string
  es_score :: int
  es_employees :: "string option"
  es_criteria :: "string option"

text \<open>The object that the projection stores for an employee it sees for the first time.\<close>

definition initialEmployee :: "string \<Rightarrow> string \<Rightarrow> jsobj" where
  "initialEmployee employeeId employeeName =
     [''id'' \<mapsto> Str employeeId,
      ''name'' \<mapsto> Str employeeName,
      ''kualitasKerja'' \<mapsto> Num 1,
      ''tanggungJawab'' \<mapsto> Num 1,
      ''kuantitasKerja'' \<mapsto> Num 1,
      ''pemahamanTugas'' \<mapsto> Num 1,
      ''inisiatif'' \<mapsto> Num 1,
      ''kerjasama'' \<mapsto> Num 1,
      ''hariAlpa'' \<mapsto> Num 0,
      ''keterlambatan'' \<mapsto> Num 0,
      ''hariIzin'' \<mapsto> Num 0,
      ''hariSakit'' \<mapsto> Num 0,
      ''pulangCepat'' \<mapsto> Num 0,
      ''prestasi'' \<mapsto> Num 0,
      ''suratPeringatan'' \<mapsto> Num 0]"

text \<open>
  The \<open>switch (score.criteria.name)\<close> of the projection: the property that a score of
  the criterion is written to.  The \<open>default\<close> branch writes to the property named by
  the criterion itself.
\<close>

definition EMPLOYEE_FIELDS :: "string list" where
  "EMPLOYEE_FIELDS =
    [''kualitasKerja'', ''tanggungJawab'', ''kuantitasKerja'', ''pemahamanTugas'',
     ''inisiatif'', ''kerjasama'',
     ''hariAlpa'', ''keterlambatan'', ''hariIzin'', ''hariSakit'', ''pulangCepat'',
     ''prestasi'', ''suratPeringatan'']"

definition switchField :: "string \<Rightarrow> string" where
  "switchField criteriaName =
     (case map_of (zip CANONICAL_CRITERIA_ORDER EMPLOYEE_FIELDS) criteriaName of
        Some field \<Rightarrow> field
      | None \<Rightarrow> criteriaName)"

text \<open>
  One iteration of \<open>evaluationScores.forEach\<close>.  \<open>employeeMap\<close> is a JavaScript
  \<open>Map\<close>: an association list in insertion order, where setting a new key appends and
  changing the object of a present key keeps its place.
\<close>

definition convertStep :: "evaluation_score \<Rightarrow> (string \<times> jsobj) list \<Rightarrow> (string \<times> jsobj) list" where
  "convertStep score employeeMap =
     (case (es_employees score, es_criteria score) of
        (Some employeeName, Some criteriaName) \<Rightarrow>
          (let employeeId = es_employee_id score;
               employee = (case map_of employeeMap employeeId of
                             None \<Rightarrow> initialEmployee employeeId employeeName
                           | Some e \<Rightarrow> e)
           in AList.update employeeId
                (employee(switchField criteriaName \<mapsto> Num (es_score score))) employeeMap)
      | _ \<Rightarrow> employeeMap)"

definition employeeMap :: "evaluation_score list \<Rightarrow> (string \<times> jsobj) list" where
  "employeeMap evaluationScores = fold convertStep evaluationScores []"










section \<open>Persisted scores and the store\<close>

text \<open>A row of the table \<open>evaluation_scores\<close>.\<close>

record score_row =
  row_id :: string
  row_employee_id :: string
  row_criteria_id :: string
  row_score :: int

text \<open>A row of \<open>select('id, criteria_id')\<close>.\<close>

record existing_score =
  ex_id :: string
  ex_criteria_id :: string

text \<open>An element of \<open>evaluationScoresData\<close>; \<open>pe_id\<close> is \<open>None\<close> when the object has no \<open>id\<close>.\<close>

record plan_entry =
  pe_id :: "string option"
  pe_employee_id :: string
  pe_criteria_id :: string
  pe_score :: int

text \<open>A row of \<open>dbEmployees\<close>; the submission reads only the id and the name.\<close>

record db_employee =
  de_id :: string
  de_name :: string

text \<open>
  The store is reached through two calls, which are parameters of the submission: the
  lookup of the employee's rows and the batch upsert.  Each returns an error or a result;
  an upsert that returns an error has applied nothing (the store applies a batch wholly
  or not at all), so an error carries no new rows.
\<close>

datatype store_error = LookupFailure | ConflictResolutionFailure

type_synonym select_fn = "score_row list \<Rightarrow> string \<Rightarrow> store_error + existing_score list"

type_synonym upsert_fn = "plan_entry list \<Rightarrow> score_row list \<Rightarrow> store_error + score_row list"

datatype store_call = SelectExisting string | Upsert "plan_entry list"

text \<open>
  What a submission leaves behind: the toast or the record handed to the caller
  (\<open>onAddEmployee\<close>, \<open>onUpdate\<close>), the persisted rows, and the store calls it made.
\<close>

datatype outcome = NoOp | ErrorToast string | Saved jsobj

record submission =
  sr_outcome :: outcome
  sr_rows :: "score_row list"
  sr_calls :: "store_call list"

section \<open>The submission\<close>

text \<open>\<open>existingScoresMap.set(score.criteria_id, score.id)\<close>, for every row of the lookup.\<close>

definition setExistingScore :: "existing_score \<Rightarrow> (string \<rightharpoonup> string) \<Rightarrow> (string \<rightharpoonup> string)" where
  "setExistingScore score m = m(ex_criteria_id score \<mapsto> ex_id score)"

definition existingScoresMap :: "existing_score list \<Rightarrow> (string \<rightharpoonup> string)" where
  "existingScoresMap existingScores = fold setExistingScore existingScores Map.empty"

text \<open>
  The plan \<open>evaluationScoresData\<close>.  The form looks its values up under
  \<open>criterion.id\<close>, the edit dialog under \<open>createFieldName(criterion.name)\<close>: the key is
  the parameter \<open>formKey\<close>.  \<open>if (existingId)\<close> is false for a missing entry and for
  the empty string.
\<close>

definition evaluationScoresData ::
  "(criterion \<Rightarrow> string) \<Rightarrow> string \<Rightarrow> criterion list \<Rightarrow> (string \<rightharpoonup> int)
    \<Rightarrow> existing_score list \<Rightarrow> plan_entry list" where
  "evaluationScoresData formKey employeeId criteria formData existingScores =
     map (\<lambda>criterion.
           (let existingId = existingScoresMap existingScores (cid criterion)
            in \<lparr>pe_id = (case existingId of
                           Some i \<Rightarrow> if i \<noteq> [] then Some i else None
                         | None \<Rightarrow> None),
                pe_employee_id = employeeId,
                pe_criteria_id = cid criterion,
                pe_score = num_or (formData (formKey criterion)) 0\<rparr>))
         criteria"

text \<open>\<open>criteria.find(c => c.name === n)?.id || ''\<close>.\<close>

definition findId :: "criterion list \<Rightarrow> string \<Rightarrow> string" where
  "findId criteria n = (case find (\<lambda>c. name c = n) criteria of Some c \<Rightarrow> cid c | None \<Rightarrow> [])"

text \<open>The record \<open>newEmployee\<close> of the form, with the dynamic criteria added.\<close>

definition newEmployee :: "db_employee \<Rightarrow> criterion list \<Rightarrow> (string \<rightharpoonup> int) \<Rightarrow> jsobj" where
  "newEmployee selectedEmployee criteria formData =
     fold (\<lambda>criterion obj.
            if name criterion \<notin> set CANONICAL_CRITERIA_ORDER
            then obj(name criterion \<mapsto> Num (num_or (formData (cid criterion)) 0))
            else obj)
       criteria
       [''id'' \<mapsto> Str (de_id selectedEmployee),
        ''name'' \<mapsto> Str (de_name selectedEmployee),
        ''kualitasKerja'' \<mapsto> Num (num_or (formData (findId criteria ''Kualitas Kerja'')) 1),
        ''tanggungJawab'' \<mapsto> Num (num_or (formData (findId criteria ''Tanggung Jawab'')) 1),
        ''kuantitasKerja'' \<mapsto> Num (num_or (formData (findId criteria ''Kuantitas Kerja'')) 1),
        ''pemahamanTugas'' \<mapsto> Num (num_or (formData (findId criteria ''Pemahaman Tugas'')) 1),
        ''inisiatif'' \<mapsto> Num (num_or (formData (findId criteria ''Inisiatif'')) 1),
        ''kerjasama'' \<mapsto> Num (num_or (formData (findId criteria ''Kerjasama'')) 1),
        ''hariAlpa'' \<mapsto> Num (num_or (formData (findId criteria ''Jumlah Hari Alpa'')) 0),
        ''keterlambatan'' \<mapsto>
          Num (num_or (formData (findId criteria ''Jumlah Keterlambatan'')) 0),
        ''hariIzin'' \<mapsto> Num (num_or (formData (findId criteria ''Jumlah Hari Izin'')) 0),
        ''hariSakit'' \<mapsto> Num (num_or (formData (findId criteria ''Jumlah Hari Sakit'')) 0),
        ''pulangCepat'' \<mapsto> Num (num_or (formData (findId criteria ''Pulang Cepat'')) 0),
        ''prestasi'' \<mapsto> Num (num_or (formData (findId criteria ''Prestasi'')) 0),
        ''suratPeringatan'' \<mapsto>
          Num (num_or (formData (findId criteria ''Surat Peringatan'')) 0)]"

text \<open>\<open>handleSubmit\<close> of the evaluation form.\<close>

definition handleSubmit_form ::
  "select_fn \<Rightarrow> upsert_fn \<Rightarrow> string \<Rightarrow> db_employee list \<Rightarrow> criterion list
    \<Rightarrow> (string \<rightharpoonup> int) \<Rightarrow> score_row list \<Rightarrow> submission" where
  "handleSubmit_form select upsert selectedEmployeeId dbEmployees criteria formData rows =
     (if selectedEmployeeId = [] then
        \<lparr>sr_outcome = ErrorToast ''Silakan pilih karyawan terlebih dahulu'',
         sr_rows = rows, sr_calls = []\<rparr>
      else case find (\<lambda>emp. de_id emp = selectedEmployeeId) dbEmployees of
        None \<Rightarrow>
          \<lparr>sr_outcome = ErrorToast ''Karyawan yang dipilih tidak ditemukan'',
           sr_rows = rows, sr_calls = []\<rparr>
      | Some selectedEmployee \<Rightarrow>
          (case select rows selectedEmployeeId of
             Inl fetchError \<Rightarrow>
               \<lparr>sr_outcome = ErrorToast ''Gagal menyimpan data evaluasi'',
                sr_rows = rows, sr_calls = [SelectExisting selectedEmployeeId]\<rparr>
           | Inr existingScores \<Rightarrow>
               (let plan = evaluationScoresData cid selectedEmployeeId criteria formData
                             existingScores
                in case upsert plan rows of
                     Inl error \<Rightarrow>
                       \<lparr>sr_outcome = ErrorToast ''Gagal menyimpan data evaluasi'',
                        sr_rows = rows,
                        sr_calls = [SelectExisting selectedEmployeeId, Upsert plan]\<rparr>
                   | Inr rows' \<Rightarrow>
                       \<lparr>sr_outcome = Saved (newEmployee selectedEmployee criteria formData),
                        sr_rows = rows',
                        sr_calls = [SelectExisting selectedEmployeeId, Upsert plan]\<rparr>)))"

text \<open>
  The record \<open>updatedEmployee\<close> of the edit dialog: the employee's properties, with
  each of the thirteen legacy fields set to
  \<open>formData[createFieldName(n)] || employee.field\<close> for its canonical name \<open>n\<close>.
\<close>

definition setField :: "jsobj \<Rightarrow> (string \<rightharpoonup> int) \<Rightarrow> string \<times> string \<Rightarrow> jsobj \<Rightarrow> jsobj" where
  "setField employee formData nf obj =
     obj(snd nf \<mapsto>
       js_or (getNum formData (createFieldName (fst nf))) (get_prop employee (snd nf)))"

definition updatedEmployee :: "jsobj \<Rightarrow> (string \<rightharpoonup> int) \<Rightarrow> jsobj" where
  "updatedEmployee employee formData =
     fold (setField employee formData) (zip CANONICAL_CRITERIA_ORDER EMPLOYEE_FIELDS) employee"

text \<open>\<open>employee.id\<close>, a string by the \<open>Employee\<close> interface.\<close>

fun str_of :: "jsval \<Rightarrow> string" where
  "str_of (Str s) = s"
| "str_of _ = []"

text \<open>\<open>handleSubmit\<close> of the edit dialog.\<close>

definition handleSubmit_edit ::
  "select_fn \<Rightarrow> upsert_fn \<Rightarrow> jsobj option \<Rightarrow> criterion list \<Rightarrow> (string \<rightharpoonup> int)
    \<Rightarrow> score_row list \<Rightarrow> submission" where
  "handleSubmit_edit select upsert employee criteria formData rows =
     (case employee of
        None \<Rightarrow> \<lparr>sr_outcome = NoOp, sr_rows = rows, sr_calls = []\<rparr>
      | Some emp \<Rightarrow>
          (let employeeId = str_of (get_prop emp ''id'')
           in case select rows employeeId of
                Inl fetchError \<Rightarrow>
                  \<lparr>sr_outcome = ErrorToast ''Gagal memperbarui data evaluasi'',
                   sr_rows = rows, sr_calls = [SelectExisting employeeId]\<rparr>
              | Inr existingScores \<Rightarrow>
                  (let plan = evaluationScoresData (\<lambda>criterion. createFieldName (name criterion))
                                employeeId criteria formData existingScores
                   in case upsert plan rows of
                        Inl error \<Rightarrow>
                          \<lparr>sr_outcome = ErrorToast ''Gagal memperbarui data evaluasi'',
                           sr_rows = rows,
                           sr_calls = [SelectExisting employeeId, Upsert plan]\<rparr>
                      | Inr rows' \<Rightarrow>
                          \<lparr>sr_outcome = Saved (updatedEmployee emp formData),
                           sr_rows = rows',
                           sr_calls = [SelectExisting employeeId, Upsert plan]\<rparr>)))"

section \<open>The score store of the specification\<close>

text \<open>
  Modelled from the spec: the score store is an external collaborator and its code is not
  part of the repository.  \<open>fetchExisting(employeeId)\<close> returns the id and criterion of
  every row of the employee.
\<close>

definition fetchExisting :: select_fn where
  "fetchExisting rows employeeId =
     Inr (map (\<lambda>r. \<lparr>ex_id = row_id r, ex_criteria_id = row_criteria_id r\<rparr>)
            (filter (\<lambda>r. row_employee_id r = employeeId) rows))"

text \<open>
  Modelled from the spec: \<open>upsertBatch(plan, conflictKey = (employeeId, criterionId))\<close>.
  An entry whose pair is present updates the value of that row in place; an entry whose
  pair is absent creates a row, with the entry's id or else an id from the store's
  generator \<open>newId\<close>.
\<close>

definition conflicts :: "plan_entry \<Rightarrow> score_row \<Rightarrow> bool" where
  "conflicts p r =
     (row_employee_id r = pe_employee_id p \<and> row_criteria_id r = pe_criteria_id p)"

definition upsertRow :: "(score_row list \<Rightarrow> string) \<Rightarrow> plan_entry \<Rightarrow> score_row list \<Rightarrow> score_row list" where
  "upsertRow newId p rows =
     (if list_ex (conflicts p) rows
      then map (\<lambda>r. if conflicts p r then r\<lparr>row_score := pe_score p\<rparr> else r) rows
      else rows @
        [\<lparr>row_id = (case pe_id p of Some i \<Rightarrow> i | None \<Rightarrow> newId rows),
          row_employee_id = pe_employee_id p,
          row_criteria_id = pe_criteria_id p,
          row_score = pe_score p\<rparr>])"

definition upsertBatch :: "(score_row list \<Rightarrow> string) \<Rightarrow> upsert_fn" where
  "upsertBatch newId plan rows = Inr (fold (upsertRow newId) plan rows)"



text \<open>The uniqueness constraint: at most one row per (employee, criterion) pair.\<close>

definition row_key :: "score_row \<Rightarrow> string \<times> string" where
  "row_key r = (row_employee_id r, row_criteria_id r)"

definition unique_pairs :: "score_row list \<Rightarrow> bool" where
  "unique_pairs rows = distinct (map row_key rows)"

definition plan_key :: "plan_entry \<Rightarrow> string \<times> string" where
  "plan_key p = (pe_employee_id p, pe_criteria_id p)"

text \<open>A submission of the form against the store of the specification.\<close>

definition submit_form ::
  "(score_row list \<Rightarrow> string) \<Rightarrow> string \<Rightarrow> db_employee list \<Rightarrow> criterion list
    \<Rightarrow> (string \<rightharpoonup> int) \<Rightarrow> score_row list \<Rightarrow> score_row list" where
  "submit_form newId selectedEmployeeId dbEmployees criteria formData rows =
     sr_rows (handleSubmit_form fetchExisting (upsertBatch newId) selectedEmployeeId
       dbEmployees criteria formData rows)"

definition submit_edit ::
  "(score_row list \<Rightarrow> string) \<Rightarrow> jsobj option \<Rightarrow> criterion list
    \<Rightarrow> (string \<rightharpoonup> int) \<Rightarrow> score_row list \<Rightarrow> score_row list" where
  "submit_edit newId employee criteria formData rows =
     sr_rows (handleSubmit_edit fetchExisting (upsertBatch newId) employee criteria formData rows)"

text \<open>An id generator for worked examples: the number of rows, in decimal.\<close>

definition demo_newId :: "score_row list \<Rightarrow> string" where
  "demo_newId rows = ''row-'' @ toString (int (length rows))"

text \<open>Three criteria and two existing rows for worked examples.\<close>

definition demo_A :: criterion where
  "demo_A = demo_criterion ''cA'' ''Kualitas Kerja'' Benefit ''1-5''"

definition demo_B :: criterion where
  "demo_B = demo_criterion ''cB'' ''Jumlah Hari Alpa'' Cost ''0-10''"

definition demo_C :: criterion where
  "demo_C = demo_criterion ''cC'' ''Masa Kerja'' Benefit ''1-5''"

definition demo_existing :: "existing_score list" where
  "demo_existing = [\<lparr>ex_id = ''r1'', ex_criteria_id = ''cA''\<rparr>,
                    \<lparr>ex_id = ''r2'', ex_criteria_id = ''cB''\<rparr>]"



definition demo_rows :: "score_row list" where
  "demo_rows =
     [\<lparr>row_id = ''r1'', row_employee_id = ''e1'', row_criteria_id = ''cA'', row_score = 3\<rparr>,
      \<lparr>row_id = ''r2'', row_employee_id = ''e1'', row_criteria_id = ''cB'', row_score = 1\<rparr>]"

definition demo_Ann :: db_employee where
  "demo_Ann = \<lparr>de_id = ''e1'', de_name = ''Ann''\<rparr>"

text \<open>An employee record for worked examples.\<close>

definition demo_employee :: jsobj where
  "demo_employee = (initialEmployee ''e1'' ''Ann'')(''kualitasKerja'' \<mapsto> Num 4)"





section \<open>Properties\<close>

subsection \<open>Array lookup\<close>

lemma indexOf_ge: "- 1 \<le> indexOf xs x"
  by (induction xs) (auto simp: Let_def)

lemma indexOf_absent: "x \<notin> set xs \<Longrightarrow> indexOf xs x = - 1"
  by (induction xs) (auto simp: Let_def)

lemma indexOf_present: "x \<in> set xs \<Longrightarrow> 0 \<le> indexOf xs x \<and> indexOf xs x < int (length xs)"
proof (induction xs)
  case Nil
  then show ?case by simp
next
  case (Cons y ys)
  show ?case
  proof (cases "y = x")
    case True
    then show ?thesis by simp
  next
    case False
    with Cons.prems have "x \<in> set ys" by simp
    from Cons.IH [OF this] False show ?thesis by (simp add: Let_def)
  qed
qed

lemma indexOf_nth: "distinct xs \<Longrightarrow> i < length xs \<Longrightarrow> indexOf xs (xs ! i) = int i"
proof (induction xs arbitrary: i)
  case Nil
  then show ?case by simp
next
  case (Cons y ys)
  show ?case
  proof (cases i)
    case 0
    then show ?thesis by simp
  next
    case (Suc j)
    with Cons.prems have j: "j < length ys" and d: "distinct ys" and ny: "y \<notin> set ys"
      by auto
    from j ny have "ys ! j \<noteq> y" by (metis nth_mem)
    with Cons.IH [OF d j] Suc show ?thesis by (simp add: Let_def)
  qed
qed

lemma distinct_CANONICAL: "distinct CANONICAL_CRITERIA_ORDER"
  by (simp add: CANONICAL_CRITERIA_ORDER_def)

lemma length_CANONICAL: "length CANONICAL_CRITERIA_ORDER = 13"
  by (simp add: CANONICAL_CRITERIA_ORDER_def)

subsection \<open>Criteria codes\<close>

text \<open>
  Claim C6.  A name at zero-based position \<open>i\<close> of the canonical list gets the code
  \<open>C\<close> followed by the decimal text of \<open>i + 1\<close>; a name that is not in the list gets
  \<open>C?\<close>.  The function is a HOL function of its argument alone, so it is pure.
\<close>

theorem getCriteriaCode_spec:
  "(\<forall>i < length CANONICAL_CRITERIA_ORDER.
      getCriteriaCode (CANONICAL_CRITERIA_ORDER ! i) = ''C'' @ toString (int i + 1))
   \<and> (\<forall>n. n \<notin> set CANONICAL_CRITERIA_ORDER \<longrightarrow> getCriteriaCode n = ''C?'')"
proof (intro conjI allI impI)
  fix i assume "i < length CANONICAL_CRITERIA_ORDER"
  then have "indexOf CANONICAL_CRITERIA_ORDER (CANONICAL_CRITERIA_ORDER ! i) = int i"
    by (rule indexOf_nth [OF distinct_CANONICAL])
  then show "getCriteriaCode (CANONICAL_CRITERIA_ORDER ! i) = ''C'' @ toString (int i + 1)"
    by (simp add: getCriteriaCode_def)
next
  fix n assume "n \<notin> set CANONICAL_CRITERIA_ORDER"
  then have "indexOf CANONICAL_CRITERIA_ORDER n = - 1" by (rule indexOf_absent)
  then show "getCriteriaCode n = ''C?''" by (simp add: getCriteriaCode_def)
qed

lemma toString_examples: "toString 1 = ''1''" "toString 7 = ''7''" "toString 13 = ''13''"
  by code_simp+

lemma CANONICAL_nth_examples:
  "CANONICAL_CRITERIA_ORDER ! 0 = ''Kualitas Kerja''"
  "CANONICAL_CRITERIA_ORDER ! 6 = ''Jumlah Hari Alpa''"
  "CANONICAL_CRITERIA_ORDER ! 12 = ''Surat Peringatan''"
  by (simp_all add: CANONICAL_CRITERIA_ORDER_def)

lemma Masa_Kerja_not_canonical: "''Masa Kerja'' \<notin> set CANONICAL_CRITERIA_ORDER"
  by (simp add: CANONICAL_CRITERIA_ORDER_def)

theorem getCriteriaCode_spec_witness:
  "getCriteriaCode ''Kualitas Kerja'' = ''C1''
   \<and> getCriteriaCode ''Jumlah Hari Alpa'' = ''C7''
   \<and> getCriteriaCode ''Surat Peringatan'' = ''C13''
   \<and> getCriteriaCode ''Masa Kerja'' = ''C?''"
proof -
  note spec = getCriteriaCode_spec
  from spec have a: "\<And>i. i < 13 \<Longrightarrow>
      getCriteriaCode (CANONICAL_CRITERIA_ORDER ! i) = ''C'' @ toString (int i + 1)"
    unfolding length_CANONICAL by blast
  from spec Masa_Kerja_not_canonical have b: "getCriteriaCode ''Masa Kerja'' = ''C?''"
    by blast
  from a [of 0] a [of 6] a [of 12] b show ?thesis
    by (simp add: CANONICAL_nth_examples toString_examples)
qed

subsection \<open>Field names\<close>

lemma code_underscore: "code CHR ''_'' = 95"
  by (simp add: code_def)

lemma alnum_not_underscore: "is_az c \<or> is_09 c \<Longrightarrow> \<not> is_underscore c"
  by (auto simp: is_az_def is_09_def is_underscore_def code_underscore)

lemma alnum_not_space: "is_az c \<or> is_09 c \<Longrightarrow> \<not> is_space c"
  by (auto simp: is_az_def is_09_def is_space_def)

lemma underscore_not_space: "is_underscore c \<Longrightarrow> \<not> is_space c"
  by (simp add: is_underscore_def is_space_def code_underscore)

lemma toLowerCase_char_token: "token_char c \<Longrightarrow> toLowerCase_char c = c"
  by (auto simp: token_char_def toLowerCase_char_def Let_def is_az_def is_09_def
      is_underscore_def code_underscore)

lemma toLowerCase_token: "\<forall>c \<in> set s. token_char c \<Longrightarrow> toLowerCase s = s"
  by (simp add: toLowerCase_def toLowerCase_char_token map_idI)

lemma set_replace_runs: "set (replace_runs P r s) \<subseteq> {c \<in> set s. \<not> P c} \<union> set r"
proof (induction P r s rule: replace_runs.induct)
  case (1 P r)
  then show ?case by simp
next
  case (2 P r c cs)
  show ?case
  proof (cases "P c")
    case True
    have "set (dropWhile P cs) \<subseteq> set cs" by (auto dest: set_dropWhileD)
    with 2(1) [OF True] True show ?thesis by auto
  next
    case False
    with 2(2) [OF False] show ?thesis by auto
  qed
qed

lemma replace_runs_none: "\<forall>c \<in> set s. \<not> P c \<Longrightarrow> replace_runs P r s = s"
  by (induction s) auto

lemma set_trim_underscores: "set (trim_underscores s) \<subseteq> set s"
  unfolding trim_underscores_def
  by (metis set_dropWhileD set_rev subsetI)

lemma trim_underscores_none: "\<forall>c \<in> set s. \<not> is_underscore c \<Longrightarrow> trim_underscores s = s"
proof -
  assume a: "\<forall>c \<in> set s. \<not> is_underscore c"
  then have "dropWhile is_underscore s = s" by (cases s) auto
  moreover from a have "dropWhile is_underscore (rev s) = rev s" by (cases "rev s") auto
  ultimately show ?thesis by (simp add: trim_underscores_def)
qed

lemma createFieldName_token: "\<forall>c \<in> set (createFieldName x). token_char c"
proof
  fix c assume c: "c \<in> set (createFieldName x)"
  let ?a = "strip_special (toLowerCase x)"
  let ?b = "replace_runs is_space ''_'' ?a"
  let ?t = "trim_underscores ?b"
  have a: "\<forall>d \<in> set ?a. is_az d \<or> is_09 d \<or> is_space d"
    by (simp add: strip_special_def)
  have b: "\<forall>d \<in> set ?b. token_char d"
  proof
    fix d assume "d \<in> set ?b"
    with set_replace_runs [of is_space "''_''" ?a]
    have "(d \<in> set ?a \<and> \<not> is_space d) \<or> d = CHR ''_''" by auto
    with a show "token_char d" by (auto simp: token_char_def is_underscore_def)
  qed
  from c have "c \<in> set (replace_runs is_underscore ''_'' ?t)"
    by (simp add: createFieldName_def)
  with set_replace_runs [of is_underscore "''_''" ?t]
  have "c \<in> set ?t \<or> c = CHR ''_''" by auto
  with set_trim_underscores [of ?b] b show "token_char c"
    by (auto simp: token_char_def is_underscore_def)
qed

lemma createFieldName_on_token:
  assumes "\<forall>c \<in> set y. token_char c"
  shows "createFieldName y = filter (\<lambda>c. c \<noteq> CHR ''_'') y"
proof -
  let ?z = "filter (\<lambda>c. c \<noteq> CHR ''_'') y"
  have low: "toLowerCase y = y" using assms by (rule toLowerCase_token)
  have "strip_special y = ?z"
    unfolding strip_special_def
  proof (rule filter_cong [OF refl])
    fix c assume "c \<in> set y"
    with assms have "token_char c" by blast
    then show "(is_az c \<or> is_09 c \<or> is_space c) = (c \<noteq> CHR ''_'')"
      using alnum_not_underscore [of c] underscore_not_space [of c]
      by (auto simp: token_char_def is_underscore_def)
  qed
  moreover have z: "\<forall>c \<in> set ?z. is_az c \<or> is_09 c"
    using assms by (auto simp: token_char_def is_underscore_def)
  then have nsp: "\<forall>c \<in> set ?z. \<not> is_space c" and nus: "\<forall>c \<in> set ?z. \<not> is_underscore c"
    using alnum_not_space alnum_not_underscore by blast+
  ultimately show ?thesis
    by (simp add: createFieldName_def low replace_runs_none [OF nsp]
        trim_underscores_none [OF nus] replace_runs_none [OF nus])
qed

text \<open>
  Claim C4, as the code has it.  \<open>createFieldName\<close> deletes every character outside
  \<open>[a-z0-9\s]\<close> before it writes underscores, so it deletes the underscores of its own
  output: applied to its own result it returns that result without its underscores.  It is
  therefore idempotent exactly on the inputs whose token has no underscore.  The two
  strings of the claim get different tokens.
\<close>

theorem createFieldName_twice:
  "createFieldName (createFieldName x) = filter (\<lambda>c. c \<noteq> CHR ''_'') (createFieldName x)
   \<and> (createFieldName (createFieldName x) = createFieldName x)
        = (CHR ''_'' \<notin> set (createFieldName x))
   \<and> createFieldName ''Jumlah  Hari  Alpa!'' = ''jumlah_hari_alpa''
   \<and> createFieldName ''jumlah_hari_alpa'' = ''jumlahharialpa''"
proof (intro conjI)
  show twice: "createFieldName (createFieldName x)
      = filter (\<lambda>c. c \<noteq> CHR ''_'') (createFieldName x)"
    by (rule createFieldName_on_token [OF createFieldName_token])
  show "(createFieldName (createFieldName x) = createFieldName x)
        = (CHR ''_'' \<notin> set (createFieldName x))"
    unfolding twice by (auto simp: filter_id_conv)
  show "createFieldName ''Jumlah  Hari  Alpa!'' = ''jumlah_hari_alpa''" by code_simp
  show "createFieldName ''jumlah_hari_alpa'' = ''jumlahharialpa''" by code_simp
qed

text \<open>
  Claim C4 as stated fails: the token of \<open>Jumlah  Hari  Alpa!\<close> is not a fixed point,
  and it differs from the token of \<open>jumlah_hari_alpa\<close>.
\<close>

theorem createFieldName_not_idempotent:
  "createFieldName (createFieldName ''Jumlah  Hari  Alpa!'') \<noteq> createFieldName ''Jumlah  Hari  Alpa!''
   \<and> createFieldName ''Jumlah  Hari  Alpa!'' \<noteq> createFieldName ''jumlah_hari_alpa''"
  by code_simp

subsection \<open>Sorting the criteria\<close>

lemma mset_insort_cmp: "mset (insort_cmp cmp x ys) = add_mset x (mset ys)"
  by (induction ys) auto

lemma mset_sort_cmp: "mset (sort_cmp cmp xs) = mset xs"
  by (induction xs) (auto simp: mset_insort_cmp)

lemma set_insort_cmp: "set (insort_cmp cmp x ys) = insert x (set ys)"
  by (induction ys) auto

lemma sorted_insort_cmp:
  assumes trans: "\<And>a b c. cmp a b \<le> 0 \<Longrightarrow> cmp b c \<le> 0 \<Longrightarrow> cmp a c \<le> 0"
    and total: "\<And>a b. \<not> cmp a b \<le> 0 \<Longrightarrow> cmp b a \<le> 0"
    and "sorted_wrt (\<lambda>a b. cmp a b \<le> 0) ys"
  shows "sorted_wrt (\<lambda>a b. cmp a b \<le> 0) (insort_cmp cmp x ys)"
  using assms(3)
proof (induction ys)
  case Nil
  then show ?case by simp
next
  case (Cons y ys)
  show ?case
  proof (cases "cmp x y \<le> 0")
    case True
    with Cons.prems trans show ?thesis by auto
  next
    case False
    then have "cmp y x \<le> 0" by (rule total)
    with Cons False show ?thesis by (auto simp: set_insort_cmp)
  qed
qed

lemma sorted_sort_cmp:
  assumes trans: "\<And>a b c. cmp a b \<le> 0 \<Longrightarrow> cmp b c \<le> 0 \<Longrightarrow> cmp a c \<le> 0"
    and total: "\<And>a b. \<not> cmp a b \<le> 0 \<Longrightarrow> cmp b a \<le> 0"
  shows "sorted_wrt (\<lambda>a b. cmp a b \<le> 0) (sort_cmp cmp xs)"
proof (induction xs)
  case Nil
  then show ?case by simp
next
  case (Cons x xs)
  then show ?case using sorted_insort_cmp [of cmp, OF trans total] by simp
qed

lemma position_known: "known c \<Longrightarrow> 0 \<le> position c"
  using indexOf_ge [of CANONICAL_CRITERIA_ORDER "name c"]
  by (simp add: known_def position_def)

lemma compare_known_known:
  "known a \<Longrightarrow> known b \<Longrightarrow> compareCriteria lc a b = position a - position b"
  by (simp add: compareCriteria_def known_def position_def)

lemma compare_unknown_unknown:
  "\<not> known a \<Longrightarrow> \<not> known b \<Longrightarrow> compareCriteria lc a b = lc (name a) (name b)"
  by (simp add: compareCriteria_def known_def)

lemma compare_known_unknown: "known a \<Longrightarrow> \<not> known b \<Longrightarrow> compareCriteria lc a b = - 1"
  by (simp add: compareCriteria_def known_def)

lemma compare_unknown_known: "\<not> known a \<Longrightarrow> known b \<Longrightarrow> compareCriteria lc a b = 1"
  by (simp add: compareCriteria_def known_def)

lemmas compare_cases =
  compare_known_known compare_unknown_unknown compare_known_unknown compare_unknown_known

lemma compareCriteria_trans:
  assumes "\<And>x y z. lc x y \<le> 0 \<Longrightarrow> lc y z \<le> 0 \<Longrightarrow> lc x z \<le> 0"
    and "compareCriteria lc a b \<le> 0" and "compareCriteria lc b c \<le> 0"
  shows "compareCriteria lc a c \<le> 0"
proof (cases "known a"; cases "known b"; cases "known c")
qed (use assms in \<open>auto simp: compare_cases\<close>)

lemma compareCriteria_total:
  assumes "\<And>x y. \<not> lc x y \<le> 0 \<Longrightarrow> lc y x \<le> 0"
    and "\<not> compareCriteria lc a b \<le> 0"
  shows "compareCriteria lc b a \<le> 0"
proof (cases "known a"; cases "known b")
qed (use assms in \<open>auto simp: compare_cases\<close>)

lemma localeCompare_Cons_le:
  "localeCompare (x # xs) (y # ys) \<le> 0 \<longleftrightarrow>
     code x < code y \<or> (code x = code y \<and> localeCompare xs ys \<le> 0)"
  by auto

lemma localeCompare_Nil_le: "localeCompare [] y \<le> 0"
  by (cases y) simp_all

lemma localeCompare_le_Nil: "localeCompare x [] \<le> 0 \<longleftrightarrow> x = []"
  by (cases x) simp_all

lemma localeCompare_trans:
  "localeCompare x y \<le> 0 \<Longrightarrow> localeCompare y z \<le> 0 \<Longrightarrow> localeCompare x z \<le> 0"
proof (induction x arbitrary: y z)
  case Nil
  show ?case by (rule localeCompare_Nil_le)
next
  case (Cons a x)
  from Cons.prems(1) obtain b y' where y: "y = b # y'"
    by (cases y) (simp_all add: localeCompare_le_Nil)
  from Cons.prems(2) y obtain c z' where z: "z = c # z'"
    by (cases z) (simp_all add: localeCompare_le_Nil)
  from Cons.prems(1) y
  have 1: "code a < code b \<or> (code a = code b \<and> localeCompare x y' \<le> 0)"
    by (simp only: localeCompare_Cons_le)
  from Cons.prems(2) y z
  have 2: "code b < code c \<or> (code b = code c \<and> localeCompare y' z' \<le> 0)"
    by (simp only: localeCompare_Cons_le)
  from 1 2 Cons.IH [of y' z']
  have "code a < code c \<or> (code a = code c \<and> localeCompare x z' \<le> 0)"
    by linarith
  then show ?case unfolding z by (simp only: localeCompare_Cons_le)
qed

lemma localeCompare_total: "\<not> localeCompare x y \<le> 0 \<Longrightarrow> localeCompare y x \<le> 0"
proof (induction x arbitrary: y)
  case Nil
  then show ?case by (simp add: localeCompare_Nil_le)
next
  case (Cons a x)
  show ?case
  proof (cases y)
    assume "y = []"
    then show ?thesis by (simp add: localeCompare_Nil_le)
  next
    fix b y' assume y: "y = b # y'"
    from Cons.prems [unfolded y localeCompare_Cons_le]
    have "\<not> (code a < code b \<or> (code a = code b \<and> localeCompare x y' \<le> 0))" .
    with Cons.IH [of y']
    have "code b < code a \<or> (code b = code a \<and> localeCompare y' x \<le> 0)"
      by linarith
    then show ?thesis unfolding y by (simp only: localeCompare_Cons_le)
  qed
qed

text \<open>
  Claim C5.  For every name comparison \<open>lc\<close> that is a transitive and total preorder (as
  a consistent comparator is), and every input list: the output is a permutation of the
  input; of two entries, the earlier one has the smaller or equal canonical position when
  both are known, compares below or equal by name when both are unknown, and an unknown
  entry never stands before a known one; the comparator itself is transitive and total.
\<close>

theorem sortedCriteria_order:
  assumes lc_trans: "\<forall>x y z. lc x y \<le> 0 \<longrightarrow> lc y z \<le> 0 \<longrightarrow> lc x z \<le> 0"
    and lc_total: "\<forall>x y. lc x y \<le> 0 \<or> lc y x \<le> 0"
  shows "mset (sortedCriteria lc cs) = mset cs
    \<and> (\<forall>i j. i < j \<and> j < length (sortedCriteria lc cs) \<longrightarrow>
         (let a = sortedCriteria lc cs ! i; b = sortedCriteria lc cs ! j
          in (known a \<and> known b \<longrightarrow> position a \<le> position b)
           \<and> (\<not> known a \<and> \<not> known b \<longrightarrow> lc (name a) (name b) \<le> 0)
           \<and> \<not> (\<not> known a \<and> known b)))
    \<and> (\<forall>a b c. compareCriteria lc a b \<le> 0 \<longrightarrow> compareCriteria lc b c \<le> 0
          \<longrightarrow> compareCriteria lc a c \<le> 0)
    \<and> (\<forall>a b. compareCriteria lc a b \<le> 0 \<or> compareCriteria lc b a \<le> 0)"
proof -
  have tr: "\<And>a b c. compareCriteria lc a b \<le> 0 \<Longrightarrow> compareCriteria lc b c \<le> 0
      \<Longrightarrow> compareCriteria lc a c \<le> 0"
    using lc_trans by (blast intro: compareCriteria_trans [of lc])
  have tot: "\<And>a b. \<not> compareCriteria lc a b \<le> 0 \<Longrightarrow> compareCriteria lc b a \<le> 0"
    using lc_total by (blast intro: compareCriteria_total [of lc])
  let ?out = "sortedCriteria lc cs"
  have sorted: "sorted_wrt (\<lambda>a b. compareCriteria lc a b \<le> 0) ?out"
    unfolding sortedCriteria_def by (rule sorted_sort_cmp [OF tr tot])
  have pos: "(let a = ?out ! i; b = ?out ! j
          in (known a \<and> known b \<longrightarrow> position a \<le> position b)
           \<and> (\<not> known a \<and> \<not> known b \<longrightarrow> lc (name a) (name b) \<le> 0)
           \<and> \<not> (\<not> known a \<and> known b))" if ij: "i < j \<and> j < length ?out" for i j
  proof -
    from sorted ij have le: "compareCriteria lc (?out ! i) (?out ! j) \<le> 0"
      by (simp add: sorted_wrt_iff_nth_less)
    show ?thesis
    proof (cases "known (?out ! i)"; cases "known (?out ! j)")
    qed (use le in \<open>simp_all add: compare_cases Let_def\<close>)
  qed
  have "mset ?out = mset cs" by (simp add: sortedCriteria_def mset_sort_cmp)
  with pos tr tot show ?thesis by blast
qed

lemma demo_sorted:
  "map name (sortedCriteria localeCompare
      [demo_criterion ''1'' ''Zona Kerja'' Benefit ''1-5'',
       demo_criterion ''2'' ''Prestasi'' Benefit ''0-1'',
       demo_criterion ''3'' ''Absensi'' Cost ''0-10'',
       demo_criterion ''4'' ''Kualitas Kerja'' Benefit ''1-5''])
   = [''Kualitas Kerja'', ''Prestasi'', ''Absensi'', ''Zona Kerja'']"
  by code_simp

theorem sortedCriteria_order_witness:
  "(let cs = [demo_criterion ''1'' ''Zona Kerja'' Benefit ''1-5'',
              demo_criterion ''2'' ''Prestasi'' Benefit ''0-1'',
              demo_criterion ''3'' ''Absensi'' Cost ''0-10'',
              demo_criterion ''4'' ''Kualitas Kerja'' Benefit ''1-5'']
    in mset (sortedCriteria localeCompare cs) = mset cs
     \<and> map name (sortedCriteria localeCompare cs)
        = [''Kualitas Kerja'', ''Prestasi'', ''Absensi'', ''Zona Kerja''])"
proof -
  have t: "\<forall>x y z. localeCompare x y \<le> 0 \<longrightarrow> localeCompare y z \<le> 0
      \<longrightarrow> localeCompare x z \<le> 0"
    using localeCompare_trans by blast
  have o: "\<forall>x y. localeCompare x y \<le> 0 \<or> localeCompare y x \<le> 0"
    using localeCompare_total by blast
  show ?thesis
    using sortedCriteria_order [OF t o] demo_sorted by (simp add: Let_def)
qed

subsection \<open>Default values\<close>



lemma core_names: "set (take 6 CANONICAL_CRITERIA_ORDER) =
  {''Kualitas Kerja'', ''Tanggung Jawab'', ''Kuantitas Kerja'', ''Pemahaman Tugas'',
   ''Inisiatif'', ''Kerjasama''}"
  by (simp add: CANONICAL_CRITERIA_ORDER_def)

lemma projection_default:
  assumes "n \<in> set CANONICAL_CRITERIA_ORDER"
  shows "get_prop (initialEmployee eid en) (switchField n) =
    Num (if n \<in> set (take 6 CANONICAL_CRITERIA_ORDER) then 1 else 0)"
proof -
  from assms have "n = ''Kualitas Kerja'' \<or> n = ''Tanggung Jawab'' \<or> n = ''Kuantitas Kerja''
    \<or> n = ''Pemahaman Tugas'' \<or> n = ''Inisiatif'' \<or> n = ''Kerjasama''
    \<or> n = ''Jumlah Hari Alpa'' \<or> n = ''Jumlah Keterlambatan'' \<or> n = ''Jumlah Hari Izin''
    \<or> n = ''Jumlah Hari Sakit'' \<or> n = ''Pulang Cepat'' \<or> n = ''Prestasi''
    \<or> n = ''Surat Peringatan''"
    by (simp add: CANONICAL_CRITERIA_ORDER_def)
  then show ?thesis
    unfolding core_names
    by (elim disjE)
       (simp_all add: switchField_def CANONICAL_CRITERIA_ORDER_def EMPLOYEE_FIELDS_def
          initialEmployee_def get_prop_def)
qed

text \<open>
  Claim C7, as the code has it.  The form default is the function of type and scale that
  the claim lists.  The default of the projection is fixed per slot and reads neither the
  type nor the scale: 1 for the slots of the six core criteria, 0 for the slots of the
  other seven canonical criteria.  For a canonical criterion the two are equal exactly
  when a core criterion is a Benefit criterion whose scale contains \<open>1-5\<close> or contains
  neither \<open>0-1\<close> nor \<open>0/1\<close>, and one of the other seven is not.
\<close>

theorem defaults_compared:
  assumes "name c \<in> set CANONICAL_CRITERIA_ORDER"
  shows "formDefault c =
      (if ctype c = Cost then 0
       else if str_includes (scale c) ''1-5'' then 1
       else if str_includes (scale c) ''0-1'' \<or> str_includes (scale c) ''0/1'' then 0
       else 1)
    \<and> get_prop (initialEmployee eid en) (switchField (name c)) =
        Num (if name c \<in> set (take 6 CANONICAL_CRITERIA_ORDER) then 1 else 0)
    \<and> ((Num (formDefault c) = get_prop (initialEmployee eid en) (switchField (name c))) =
        ((name c \<in> set (take 6 CANONICAL_CRITERIA_ORDER)) =
         (ctype c = Benefit \<and>
           (str_includes (scale c) ''1-5'' \<or>
            \<not> (str_includes (scale c) ''0-1'' \<or> str_includes (scale c) ''0/1'')))))"
proof -
  have f: "formDefault c =
      (if ctype c = Cost then 0
       else if str_includes (scale c) ''1-5'' then 1
       else if str_includes (scale c) ''0-1'' \<or> str_includes (scale c) ''0/1'' then 0
       else 1)"
    by (cases "ctype c") (simp_all add: formDefault_def)
  note p = projection_default [OF assms, of eid en]
  have "(Num (formDefault c) = get_prop (initialEmployee eid en) (switchField (name c))) =
        ((name c \<in> set (take 6 CANONICAL_CRITERIA_ORDER)) =
         (ctype c = Benefit \<and>
           (str_includes (scale c) ''1-5'' \<or>
            \<not> (str_includes (scale c) ''0-1'' \<or> str_includes (scale c) ''0/1''))))"
    unfolding p by (cases "ctype c") (auto simp: formDefault_def)
  with f p show ?thesis by blast
qed

theorem defaults_compared_witness:
  "formDefault (demo_criterion ''1'' ''Kualitas Kerja'' Benefit ''1-5'') = 1
   \<and> get_prop (initialEmployee ''e1'' ''Ann'') (switchField ''Kualitas Kerja'') = Num 1
   \<and> formDefault (demo_criterion ''7'' ''Jumlah Hari Alpa'' Cost ''0-10'') = 0
   \<and> get_prop (initialEmployee ''e1'' ''Ann'') (switchField ''Jumlah Hari Alpa'') = Num 0"
proof -
  have a: "name (demo_criterion ''1'' ''Kualitas Kerja'' Benefit ''1-5'')
      \<in> set CANONICAL_CRITERIA_ORDER"
    by (simp add: demo_criterion_def CANONICAL_CRITERIA_ORDER_def)
  have b: "name (demo_criterion ''7'' ''Jumlah Hari Alpa'' Cost ''0-10'')
      \<in> set CANONICAL_CRITERIA_ORDER"
    by (simp add: demo_criterion_def CANONICAL_CRITERIA_ORDER_def)
  from defaults_compared [OF a, of "''e1''" "''Ann''"]
       defaults_compared [OF b, of "''e1''" "''Ann''"]
  show ?thesis
    by (simp add: demo_criterion_def core_names)
qed

text \<open>
  Claim C7 as stated fails: a core Benefit criterion with a binary scale has form default 0
  and projection default 1; \<open>Prestasi\<close> as a Benefit criterion with scale \<open>1-5\<close> has form
  default 1 and projection default 0.
\<close>

theorem defaults_differ:
  "formDefault (demo_criterion ''1'' ''Kualitas Kerja'' Benefit ''0-1'') = 0
   \<and> get_prop (initialEmployee ''e1'' ''Ann'') (switchField ''Kualitas Kerja'') = Num 1
   \<and> formDefault (demo_criterion ''12'' ''Prestasi'' Benefit ''1-5'') = 1
   \<and> get_prop (initialEmployee ''e1'' ''Ann'') (switchField ''Prestasi'') = Num 0"
  by (simp add: formDefault_def demo_criterion_def switchField_def CANONICAL_CRITERIA_ORDER_def
      EMPLOYEE_FIELDS_def initialEmployee_def get_prop_def)

subsection \<open>Projection\<close>


















subsection \<open>The reconciliation plan\<close>

lemma existing_fold_Some:
  "fold setExistingScore ex m k = Some i \<Longrightarrow>
   m k = Some i \<or> (\<exists>s \<in> set ex. ex_criteria_id s = k \<and> ex_id s = i)"
proof (induction ex arbitrary: m)
  case Nil
  then show ?case by simp
next
  case (Cons s ex)
  from Cons.prems have "fold setExistingScore ex (setExistingScore s m) k = Some i" by simp
  from Cons.IH [OF this] show ?case by (auto simp: setExistingScore_def split: if_splits)
qed

lemma existing_fold_None:
  "fold setExistingScore ex m k = None \<longleftrightarrow>
   m k = None \<and> (\<forall>s \<in> set ex. ex_criteria_id s \<noteq> k)"
  by (induction ex arbitrary: m) (auto simp: setExistingScore_def)

lemma existingScoresMap_Some:
  "existingScoresMap ex k = Some i \<Longrightarrow> \<exists>s \<in> set ex. ex_criteria_id s = k \<and> ex_id s = i"
  using existing_fold_Some [of ex Map.empty k i] by (simp add: existingScoresMap_def)

lemma existingScoresMap_None:
  "existingScoresMap ex k = None \<longleftrightarrow> (\<forall>s \<in> set ex. ex_criteria_id s \<noteq> k)"
  using existing_fold_None [of ex Map.empty k] by (simp add: existingScoresMap_def)

lemma plan_length [simp]:
  "length (evaluationScoresData formKey employeeId criteria formData ex) = length criteria"
  by (simp add: evaluationScoresData_def)

lemma plan_nth:
  assumes "i < length criteria"
  shows "pe_employee_id (evaluationScoresData formKey employeeId criteria formData ex ! i) = employeeId"
    and "pe_criteria_id (evaluationScoresData formKey employeeId criteria formData ex ! i)
          = cid (criteria ! i)"
    and "pe_score (evaluationScoresData formKey employeeId criteria formData ex ! i)
          = num_or (formData (formKey (criteria ! i))) 0"
    and "pe_id (evaluationScoresData formKey employeeId criteria formData ex ! i)
          = (case existingScoresMap ex (cid (criteria ! i)) of
               Some r \<Rightarrow> if r \<noteq> [] then Some r else None
             | None \<Rightarrow> None)"
  using assms by (simp_all add: evaluationScoresData_def Let_def)

lemma handleSubmit_form_calls:
  assumes "selectedEmployeeId \<noteq> []"
    and "find (\<lambda>emp. de_id emp = selectedEmployeeId) dbEmployees = Some se"
    and "select rows selectedEmployeeId = Inr ex"
  shows "sr_calls (handleSubmit_form select upsert selectedEmployeeId dbEmployees criteria
           formData rows)
         = [SelectExisting selectedEmployeeId,
            Upsert (evaluationScoresData cid selectedEmployeeId criteria formData ex)]"
  using assms by (simp add: handleSubmit_form_def Let_def split: sum.splits)

lemma handleSubmit_edit_calls:
  assumes "select rows (str_of (get_prop emp ''id'')) = Inr ex"
  shows "sr_calls (handleSubmit_edit select upsert (Some emp) criteria formData rows)
         = [SelectExisting (str_of (get_prop emp ''id'')),
            Upsert (evaluationScoresData (\<lambda>c. createFieldName (name c))
              (str_of (get_prop emp ''id'')) criteria formData ex)]"
  using assms by (simp add: handleSubmit_edit_def Let_def split: sum.splits)

text \<open>
  Claim C1.  \<open>existingScores\<close> is the result of the lookup for the employee, whose ids
  are not empty.  The plan has one entry per criterion of the current set, for this
  employee and that criterion; an entry with an id carries the id of an existing row of
  that criterion, and an entry without an id belongs to a criterion that has no existing
  row.  This plan is what both \<open>handleSubmit\<close> functions pass to the upsert.
\<close>

theorem plan_carries_existing_ids:
  assumes "\<forall>s \<in> set existingScores. ex_id s \<noteq> []"
  shows "length (evaluationScoresData formKey employeeId criteria formData existingScores)
           = length criteria
    \<and> (\<forall>i < length criteria.
         (let p = evaluationScoresData formKey employeeId criteria formData existingScores ! i;
              c = criteria ! i
          in pe_employee_id p = employeeId \<and> pe_criteria_id p = cid c
           \<and> (case pe_id p of
                 Some r \<Rightarrow> \<exists>s \<in> set existingScores. ex_id s = r \<and> ex_criteria_id s = cid c
               | None \<Rightarrow> \<forall>s \<in> set existingScores. ex_criteria_id s \<noteq> cid c)))
    \<and> (selectedEmployeeId \<noteq> []
         \<and> find (\<lambda>emp. de_id emp = selectedEmployeeId) dbEmployees = Some selectedEmployee
         \<and> select rows selectedEmployeeId = Inr existingScores
        \<longrightarrow> sr_calls (handleSubmit_form select upsert selectedEmployeeId dbEmployees criteria
              formData rows)
            = [SelectExisting selectedEmployeeId,
               Upsert (evaluationScoresData cid selectedEmployeeId criteria formData
                 existingScores)])
    \<and> (select rows (str_of (get_prop emp ''id'')) = Inr existingScores
        \<longrightarrow> sr_calls (handleSubmit_edit select upsert (Some emp) criteria formData rows)
            = [SelectExisting (str_of (get_prop emp ''id'')),
               Upsert (evaluationScoresData (\<lambda>c. createFieldName (name c))
                 (str_of (get_prop emp ''id'')) criteria formData existingScores)])"
proof -
  let ?plan = "evaluationScoresData formKey employeeId criteria formData existingScores"
  have ids: "(case pe_id (?plan ! i) of
                 Some r \<Rightarrow> \<exists>s \<in> set existingScores. ex_id s = r \<and> ex_criteria_id s = cid (criteria ! i)
               | None \<Rightarrow> \<forall>s \<in> set existingScores. ex_criteria_id s \<noteq> cid (criteria ! i))"
    if i: "i < length criteria" for i
  proof (cases "existingScoresMap existingScores (cid (criteria ! i))")
    case None
    then have "pe_id (?plan ! i) = None" using i by (simp add: plan_nth)
    with None show ?thesis by (simp add: existingScoresMap_None)
  next
    case (Some r)
    from existingScoresMap_Some [OF Some]
    obtain s where s: "s \<in> set existingScores" "ex_criteria_id s = cid (criteria ! i)" "ex_id s = r"
      by blast
    with assms have "r \<noteq> []" by blast
    with Some i have "pe_id (?plan ! i) = Some r" by (simp add: plan_nth)
    with s show ?thesis by auto
  qed
  have "\<forall>i < length criteria.
         (let p = ?plan ! i; c = criteria ! i
          in pe_employee_id p = employeeId \<and> pe_criteria_id p = cid c
           \<and> (case pe_id p of
                 Some r \<Rightarrow> \<exists>s \<in> set existingScores. ex_id s = r \<and> ex_criteria_id s = cid c
               | None \<Rightarrow> \<forall>s \<in> set existingScores. ex_criteria_id s \<noteq> cid c))"
    using ids by (simp add: Let_def plan_nth)
  then show ?thesis
    using handleSubmit_form_calls [of selectedEmployeeId dbEmployees selectedEmployee select rows
        existingScores upsert criteria formData]
      handleSubmit_edit_calls [of select rows emp existingScores upsert criteria formData]
    by (simp only: plan_length simp_thms) blast
qed

lemma demo_plan:
  "map (\<lambda>p. (pe_id p, pe_employee_id p, pe_criteria_id p, pe_score p))
     (evaluationScoresData cid ''e1'' [demo_A, demo_B, demo_C]
        [''cA'' \<mapsto> 4, ''cB'' \<mapsto> 2, ''cC'' \<mapsto> 3] demo_existing)
   = [(Some ''r1'', ''e1'', ''cA'', 4), (Some ''r2'', ''e1'', ''cB'', 2), (None, ''e1'', ''cC'', 3)]"
  by code_simp

lemma demo_lookup: "fetchExisting demo_rows ''e1'' = Inr demo_existing"
  by (simp add: fetchExisting_def demo_rows_def demo_existing_def)

lemma demo_employee_id: "str_of (get_prop demo_employee ''id'') = ''e1''"
  by (simp add: demo_employee_def initialEmployee_def get_prop_def)

theorem plan_carries_existing_ids_witness:
  "map (\<lambda>p. (pe_id p, pe_employee_id p, pe_criteria_id p, pe_score p))
     (evaluationScoresData cid ''e1'' [demo_A, demo_B, demo_C]
        [''cA'' \<mapsto> 4, ''cB'' \<mapsto> 2, ''cC'' \<mapsto> 3] demo_existing)
   = [(Some ''r1'', ''e1'', ''cA'', 4), (Some ''r2'', ''e1'', ''cB'', 2), (None, ''e1'', ''cC'', 3)]
   \<and> sr_calls (handleSubmit_form fetchExisting (upsertBatch demo_newId) ''e1'' [demo_Ann]
        [demo_A, demo_B, demo_C] [''cA'' \<mapsto> 4, ''cB'' \<mapsto> 2, ''cC'' \<mapsto> 3] demo_rows)
     = [SelectExisting ''e1'',
        Upsert (evaluationScoresData cid ''e1'' [demo_A, demo_B, demo_C]
          [''cA'' \<mapsto> 4, ''cB'' \<mapsto> 2, ''cC'' \<mapsto> 3] demo_existing)]
   \<and> sr_calls (handleSubmit_edit fetchExisting (upsertBatch demo_newId) (Some demo_employee)
        [demo_A, demo_B, demo_C] [''kualitas_kerja'' \<mapsto> 4] demo_rows)
     = [SelectExisting ''e1'',
        Upsert (evaluationScoresData (\<lambda>c. createFieldName (name c)) ''e1''
          [demo_A, demo_B, demo_C] [''kualitas_kerja'' \<mapsto> 4] demo_existing)]"
proof -
  have h: "\<forall>s \<in> set demo_existing. ex_id s \<noteq> []"
    by (simp add: demo_existing_def)
  have g: "''e1'' \<noteq> [] \<and> find (\<lambda>emp. de_id emp = ''e1'') [demo_Ann] = Some demo_Ann
      \<and> fetchExisting demo_rows ''e1'' = Inr demo_existing"
    by (simp add: demo_lookup demo_Ann_def)
  from plan_carries_existing_ids [OF h, where criteria = "[demo_A, demo_B, demo_C]"
      and formData = "[''cA'' \<mapsto> 4, ''cB'' \<mapsto> 2, ''cC'' \<mapsto> 3]" and selectedEmployeeId = "''e1''"
      and dbEmployees = "[demo_Ann]" and selectedEmployee = demo_Ann and select = fetchExisting
      and rows = demo_rows and upsert = "upsertBatch demo_newId"] g
  have a: "sr_calls (handleSubmit_form fetchExisting (upsertBatch demo_newId) ''e1'' [demo_Ann]
        [demo_A, demo_B, demo_C] [''cA'' \<mapsto> 4, ''cB'' \<mapsto> 2, ''cC'' \<mapsto> 3] demo_rows)
     = [SelectExisting ''e1'',
        Upsert (evaluationScoresData cid ''e1'' [demo_A, demo_B, demo_C]
          [''cA'' \<mapsto> 4, ''cB'' \<mapsto> 2, ''cC'' \<mapsto> 3] demo_existing)]"
    by blast
  from plan_carries_existing_ids [OF h, where criteria = "[demo_A, demo_B, demo_C]"
      and formData = "[''kualitas_kerja'' \<mapsto> 4]" and emp = demo_employee
      and select = fetchExisting and rows = demo_rows and upsert = "upsertBatch demo_newId"]
    demo_lookup demo_employee_id
  have b: "sr_calls (handleSubmit_edit fetchExisting (upsertBatch demo_newId) (Some demo_employee)
        [demo_A, demo_B, demo_C] [''kualitas_kerja'' \<mapsto> 4] demo_rows)
     = [SelectExisting ''e1'',
        Upsert (evaluationScoresData (\<lambda>c. createFieldName (name c)) ''e1''
          [demo_A, demo_B, demo_C] [''kualitas_kerja'' \<mapsto> 4] demo_existing)]"
    by simp
  from a b demo_plan show ?thesis by blast
qed

subsection \<open>Failure paths\<close>





subsection \<open>The record handed to the caller\<close>














subsection \<open>Uniqueness of the persisted pairs\<close>

lemma conflicts_key: "conflicts p r \<longleftrightarrow> row_key r = plan_key p"
  by (auto simp: conflicts_def row_key_def plan_key_def)

lemma row_key_score [simp]: "row_key (r\<lparr>row_score := v\<rparr>) = row_key r"
  by (simp add: row_key_def)

lemma keys_upsertRow:
  "map row_key (upsertRow newId p rows) =
     (if plan_key p \<in> set (map row_key rows) then map row_key rows
      else map row_key rows @ [plan_key p])"
proof (cases "list_ex (conflicts p) rows")
  case True
  then have "plan_key p \<in> set (map row_key rows)"
    by (force simp: list_ex_iff conflicts_key image_iff)
  moreover have "map row_key (map (\<lambda>r. if conflicts p r then r\<lparr>row_score := pe_score p\<rparr> else r) rows)
      = map row_key rows"
    by (induction rows) auto
  ultimately show ?thesis using True by (simp add: upsertRow_def)
next
  case False
  then have "plan_key p \<notin> set (map row_key rows)"
    by (auto simp: list_ex_iff conflicts_key)
  with False show ?thesis by (simp add: upsertRow_def row_key_def plan_key_def)
qed

lemma unique_upsertRow: "unique_pairs rows \<Longrightarrow> unique_pairs (upsertRow newId p rows)"
  by (simp add: unique_pairs_def keys_upsertRow)

lemma unique_fold_upsertRow:
  "unique_pairs rows \<Longrightarrow> unique_pairs (fold (upsertRow newId) plan rows)"
  by (induction plan arbitrary: rows) (simp_all add: unique_upsertRow)

lemma keys_fold_present:
  "set (map plan_key plan) \<subseteq> set (map row_key rows) \<Longrightarrow>
   map row_key (fold (upsertRow newId) plan rows) = map row_key rows"
proof (induction plan arbitrary: rows)
  case Nil
  then show ?case by simp
next
  case (Cons p plan)
  then have k: "map row_key (upsertRow newId p rows) = map row_key rows"
    by (simp add: keys_upsertRow)
  with Cons.prems have "set (map plan_key plan) \<subseteq> set (map row_key (upsertRow newId p rows))"
    by simp
  from Cons.IH [OF this] k show ?case by simp
qed

lemma keys_fold_all:
  "set (map row_key (fold (upsertRow newId) plan rows))
     = set (map row_key rows) \<union> set (map plan_key plan)"
proof (induction plan arbitrary: rows)
  case Nil
  then show ?case by simp
next
  case (Cons p plan)
  have "set (map row_key (upsertRow newId p rows)) = insert (plan_key p) (set (map row_key rows))"
    by (auto simp: keys_upsertRow)
  with Cons.IH [of "upsertRow newId p rows"] show ?case by auto
qed

lemma plan_keys:
  "map plan_key (evaluationScoresData formKey employeeId criteria formData ex)
     = map (\<lambda>c. (employeeId, cid c)) criteria"
  by (simp add: evaluationScoresData_def plan_key_def Let_def)

lemma resubmit_keys:
  assumes "rows1 = fold (upsertRow newId)
      (evaluationScoresData formKey employeeId criteria formData ex) rows"
  shows "map row_key (fold (upsertRow newId)
      (evaluationScoresData formKey' employeeId criteria formData' ex') rows1) = map row_key rows1"
proof (rule keys_fold_present)
  show "set (map plan_key (evaluationScoresData formKey' employeeId criteria formData' ex'))
      \<subseteq> set (map row_key rows1)"
    unfolding assms keys_fold_all plan_keys by blast
qed

lemma submit_form_eq:
  "submit_form newId selectedEmployeeId dbEmployees criteria formData rows =
     (if selectedEmployeeId = [] \<or> find (\<lambda>emp. de_id emp = selectedEmployeeId) dbEmployees = None
      then rows
      else fold (upsertRow newId)
             (evaluationScoresData cid selectedEmployeeId criteria formData
                (map (\<lambda>r. \<lparr>ex_id = row_id r, ex_criteria_id = row_criteria_id r\<rparr>)
                   (filter (\<lambda>r. row_employee_id r = selectedEmployeeId) rows)))
             rows)"
  by (simp add: submit_form_def handleSubmit_form_def fetchExisting_def upsertBatch_def Let_def
      split: option.splits)

lemma submit_edit_eq:
  "submit_edit newId employee criteria formData rows =
     (case employee of
        None \<Rightarrow> rows
      | Some emp \<Rightarrow>
          fold (upsertRow newId)
            (evaluationScoresData (\<lambda>c. createFieldName (name c))
               (str_of (get_prop emp ''id'')) criteria formData
               (map (\<lambda>r. \<lparr>ex_id = row_id r, ex_criteria_id = row_criteria_id r\<rparr>)
                  (filter (\<lambda>r. row_employee_id r = str_of (get_prop emp ''id'')) rows)))
            rows)"
  by (simp add: submit_edit_def handleSubmit_edit_def fetchExisting_def upsertBatch_def Let_def
      split: option.splits)

lemma submit_form_cases:
  "submit_form newId selectedEmployeeId dbEmployees criteria formData rows = rows
   \<or> (\<exists>ex. submit_form newId selectedEmployeeId dbEmployees criteria formData rows
         = fold (upsertRow newId)
             (evaluationScoresData cid selectedEmployeeId criteria formData ex) rows)"
proof (cases "selectedEmployeeId = []
    \<or> find (\<lambda>emp. de_id emp = selectedEmployeeId) dbEmployees = None")
  case True
  then show ?thesis by (simp only: submit_form_eq if_True simp_thms)
next
  case False
  then show ?thesis by (simp only: submit_form_eq if_False) blast
qed

lemma submit_edit_cases:
  "submit_edit newId employee criteria formData rows = rows
   \<or> (\<exists>emp ex. employee = Some emp \<and> submit_edit newId employee criteria formData rows
         = fold (upsertRow newId)
             (evaluationScoresData (\<lambda>c. createFieldName (name c))
                (str_of (get_prop emp ''id'')) criteria formData ex) rows)"
proof (cases employee)
  case None
  then show ?thesis by (simp add: submit_edit_eq)
next
  case (Some emp)
  then show ?thesis by (simp only: submit_edit_eq option.case) blast
qed

lemma count_by_keys:
  "length (filter (\<lambda>r. row_employee_id r = e) rows)
     = length (filter (\<lambda>k. fst k = e) (map row_key rows))"
  by (induction rows) (auto simp: row_key_def)

lemma count_from_keys:
  "map row_key a = map row_key b \<Longrightarrow>
   length (filter (\<lambda>r. row_employee_id r = e) a) = length (filter (\<lambda>r. row_employee_id r = e) b)"
  by (simp only: count_by_keys)

lemma submit_form_unique:
  "unique_pairs rows \<Longrightarrow>
   unique_pairs (submit_form newId selectedEmployeeId dbEmployees criteria formData rows)"
  using submit_form_cases [of newId selectedEmployeeId dbEmployees criteria formData rows]
  by (auto simp: unique_fold_upsertRow)

lemma submit_edit_unique:
  "unique_pairs rows \<Longrightarrow> unique_pairs (submit_edit newId employee criteria formData rows)"
  using submit_edit_cases [of newId employee criteria formData rows]
  by (auto simp: unique_fold_upsertRow)

lemma submit_form_twice_keys:
  "map row_key (submit_form newId e dbEmployees criteria formData
      (submit_form newId e dbEmployees criteria formData rows))
   = map row_key (submit_form newId e dbEmployees criteria formData rows)"
proof -
  let ?rows1 = "submit_form newId e dbEmployees criteria formData rows"
  from submit_form_cases [of newId e dbEmployees criteria formData rows]
  show ?thesis
  proof
    assume same: "?rows1 = rows"
    then show ?thesis by simp
  next
    assume "\<exists>ex. ?rows1 = fold (upsertRow newId) (evaluationScoresData cid e criteria formData ex) rows"
    then obtain ex where 1: "?rows1 = fold (upsertRow newId)
        (evaluationScoresData cid e criteria formData ex) rows" ..
    from submit_form_cases [of newId e dbEmployees criteria formData ?rows1]
    show ?thesis
    proof
      assume "submit_form newId e dbEmployees criteria formData ?rows1 = ?rows1"
      then show ?thesis by simp
    next
      assume "\<exists>ex'. submit_form newId e dbEmployees criteria formData ?rows1
          = fold (upsertRow newId) (evaluationScoresData cid e criteria formData ex') ?rows1"
      then obtain ex' where 2: "submit_form newId e dbEmployees criteria formData ?rows1
          = fold (upsertRow newId) (evaluationScoresData cid e criteria formData ex') ?rows1" ..
      show ?thesis unfolding 2 by (rule resubmit_keys [OF 1])
    qed
  qed
qed

lemma submit_edit_twice_keys:
  "map row_key (submit_edit newId employee criteria formData
      (submit_edit newId employee criteria formData rows))
   = map row_key (submit_edit newId employee criteria formData rows)"
proof -
  let ?rows1 = "submit_edit newId employee criteria formData rows"
  let ?key = "\<lambda>c. createFieldName (name c)"
  from submit_edit_cases [of newId employee criteria formData rows]
  show ?thesis
  proof
    assume same: "?rows1 = rows"
    then show ?thesis by simp
  next
    assume "\<exists>emp ex. employee = Some emp \<and> ?rows1 = fold (upsertRow newId)
        (evaluationScoresData ?key (str_of (get_prop emp ''id'')) criteria formData ex) rows"
    then obtain emp ex where e: "employee = Some emp" and 1: "?rows1 = fold (upsertRow newId)
        (evaluationScoresData ?key (str_of (get_prop emp ''id'')) criteria formData ex) rows"
      by blast
    from submit_edit_cases [of newId employee criteria formData ?rows1]
    show ?thesis
    proof
      assume "submit_edit newId employee criteria formData ?rows1 = ?rows1"
      then show ?thesis by simp
    next
      assume "\<exists>emp' ex'. employee = Some emp' \<and> submit_edit newId employee criteria formData ?rows1
          = fold (upsertRow newId)
              (evaluationScoresData ?key (str_of (get_prop emp' ''id'')) criteria formData ex')
              ?rows1"
      with e obtain ex' where 2: "submit_edit newId employee criteria formData ?rows1
          = fold (upsertRow newId)
              (evaluationScoresData ?key (str_of (get_prop emp ''id'')) criteria formData ex')
              ?rows1"
        by auto
      show ?thesis unfolding 2 by (rule resubmit_keys [OF 1])
    qed
  qed
qed

text \<open>
  Claim C2, against the store of the specification.  A submission of either component
  keeps the rows unique per (employee, criterion) pair.  Submitting the same evaluation a
  second time leaves the sequence of pairs of the rows as the first submission left it,
  so no row is added and the number of rows of every employee is unchanged.
\<close>

theorem upsert_keeps_pairs_unique:
  "(unique_pairs rows \<longrightarrow>
      unique_pairs (submit_form newId selectedEmployeeId dbEmployees criteria formData rows)
      \<and> unique_pairs (submit_edit newId employee criteria editData rows))
   \<and> (let rows1 = submit_form newId selectedEmployeeId dbEmployees criteria formData rows;
           rows2 = submit_form newId selectedEmployeeId dbEmployees criteria formData rows1
       in map row_key rows2 = map row_key rows1
        \<and> length (filter (\<lambda>r. row_employee_id r = selectedEmployeeId) rows2)
            = length (filter (\<lambda>r. row_employee_id r = selectedEmployeeId) rows1))
   \<and> (let rows1 = submit_edit newId employee criteria editData rows;
           rows2 = submit_edit newId employee criteria editData rows1
       in map row_key rows2 = map row_key rows1
        \<and> (\<forall>e. length (filter (\<lambda>r. row_employee_id r = e) rows2)
            = length (filter (\<lambda>r. row_employee_id r = e) rows1)))"
  unfolding Let_def
  using submit_form_unique [of rows newId selectedEmployeeId dbEmployees criteria formData]
    submit_edit_unique [of rows newId employee criteria editData]
    submit_form_twice_keys [of newId selectedEmployeeId dbEmployees criteria formData rows]
    submit_edit_twice_keys [of newId employee criteria editData rows]
    count_from_keys [OF submit_form_twice_keys
      [of newId selectedEmployeeId dbEmployees criteria formData rows]]
    count_from_keys [OF submit_edit_twice_keys [of newId employee criteria editData rows]]
  by blast

lemma demo_submit:
  "map (\<lambda>r. (row_id r, row_employee_id r, row_criteria_id r, row_score r))
     (submit_form demo_newId ''e1'' [demo_Ann] [demo_A, demo_B, demo_C]
        [''cA'' \<mapsto> 4, ''cB'' \<mapsto> 0, ''cC'' \<mapsto> 3] demo_rows)
   = [(''r1'', ''e1'', ''cA'', 4), (''r2'', ''e1'', ''cB'', 0), (''row-2'', ''e1'', ''cC'', 3)]"
  by code_simp

lemma demo_rows_unique: "unique_pairs demo_rows"
  by (simp add: unique_pairs_def demo_rows_def row_key_def)

theorem upsert_keeps_pairs_unique_witness:
  "unique_pairs demo_rows
   \<and> unique_pairs (submit_form demo_newId ''e1'' [demo_Ann] [demo_A, demo_B, demo_C]
        [''cA'' \<mapsto> 4, ''cB'' \<mapsto> 0, ''cC'' \<mapsto> 3] demo_rows)
   \<and> map (\<lambda>r. (row_id r, row_employee_id r, row_criteria_id r, row_score r))
     (submit_form demo_newId ''e1'' [demo_Ann] [demo_A, demo_B, demo_C]
        [''cA'' \<mapsto> 4, ''cB'' \<mapsto> 0, ''cC'' \<mapsto> 3] demo_rows)
   = [(''r1'', ''e1'', ''cA'', 4), (''r2'', ''e1'', ''cB'', 0), (''row-2'', ''e1'', ''cC'', 3)]"
  using upsert_keeps_pairs_unique [of demo_rows demo_newId "''e1''" "[demo_Ann]"
      "[demo_A, demo_B, demo_C]" "[''cA'' \<mapsto> 4, ''cB'' \<mapsto> 0, ''cC'' \<mapsto> 3]"]
    demo_rows_unique demo_submit
  by blast

subsection \<open>Round trip of a submission\<close>






















end
